theory Spec2Isabelle
  imports Main "HOL-Library.Word" "HOL-Library.Signed_Division"
begin

unbundle bit_operations_syntax

section \<open>Basic types (ymtypes)\<close>

text \<open>
  The Go integer types of the player. Signed and unsigned types of one width share a word
  type: addition, multiplication and the bitwise operations agree on both, and the
  operations that differ (comparison, division, right shift, widening) are written with
  \<open>sint\<close>, \<open>\<le>s\<close>, \<open>signed_drop_bit\<close> and \<open>scast\<close> where the Go operand is signed.
  Go's \<open>int\<close> (64 bits on the supported platforms) is \<open>int\<close>; every conversion from it to
  a fixed width is written out with \<open>word_of_int\<close>.
  A fixed-size Go array \<open>[N]T\<close> is a function \<open>nat \<Rightarrow> T\<close>, with a bounds check
  written out wherever the source does not bound the index itself; a slice is a list.
\<close>

type_synonym YmInt = "32 word"
type_synonym YmU32 = "32 word"
type_synonym YmU16 = "16 word"
type_synonym YmU8 = "8 word"
type_synonym YmSample = "16 word"
type_synonym YmS64 = "64 word"

datatype error =
    PanicDivideByZero
  | PanicIndexOutOfRange
  | PanicSliceBounds
  | ErrDataTooSmall
  | ErrHeaderNotFound
  | ErrEOF
  | ErrUnexpectedEOF
  | ErrUnsupportedMethod "YmU8 list"
  | ErrIncompleteData int YmU32
  | ErrLzhDecompressionFailed error
  | ErrFileTooSmall
  | ErrNotValidYmFormat
  | ErrYM4NotSupported
  | ErrUnknownYmFormat YmU32

definition bindE :: "error + 'a \<Rightarrow> ('a \<Rightarrow> error + 'b) \<Rightarrow> error + 'b" where
  "bindE m f = (case m of Inl e \<Rightarrow> Inl e | Inr x \<Rightarrow> f x)"

text \<open>Go's \<open>/\<close> on \<open>int32\<close> and \<open>int64\<close>: truncation towards zero, wrapping on overflow. The
  callers check the divisor, as Go panics on zero.\<close>

definition s32_div :: "YmInt \<Rightarrow> YmInt \<Rightarrow> YmInt" where
  "s32_div a b = word_of_int (sint a sdiv sint b)"

definition s64_div :: "YmS64 \<Rightarrow> YmS64 \<Rightarrow> YmS64" where
  "s64_div a b = word_of_int (sint a sdiv sint b)"

definition DRUM_PREC :: nat where
  "DRUM_PREC = 15"

definition DC_ADJUST_BUFFERLEN :: int where
  "DC_ADJUST_BUFFERLEN = 512"

section \<open>The YM2149 emulator (ym2149ex)\<close>

record YmSpecialEffect =
  Drum :: bool
  DrumSize :: YmU32
  DrumData :: "YmU8 list"
  DrumPos :: YmU32
  DrumStep :: YmU32
  Sid :: bool
  SidPos :: YmU32
  SidStep :: YmU32
  SidVol :: YmInt

definition YmSpecialEffect_zero :: YmSpecialEffect where
  "YmSpecialEffect_zero =
     \<lparr>Drum = False, DrumSize = 0, DrumData = [], DrumPos = 0, DrumStep = 0,
      Sid = False, SidPos = 0, SidStep = 0, SidVol = 0\<rparr>"

record DcAdjuster =
  dc_buffer :: "nat \<Rightarrow> YmInt"
  dc_pos :: int
  dc_sum :: YmInt

text \<open>The four variables a voice's volume pointer (\<open>pVolA\<close>, \<open>pVolB\<close>, \<open>pVolC\<close>) is ever
  aimed at.\<close>

datatype vol_ptr = AddrVolA | AddrVolB | AddrVolC | AddrVolE

record CYm2149Ex =
  bFilter :: bool
  frameCycle :: YmU32
  cyclePerSample :: YmU32
  replayFrequency :: YmInt
  internalClock :: YmU32
  registers :: "nat \<Rightarrow> YmU8"
  stepA :: YmU32
  stepB :: YmU32
  stepC :: YmU32
  posA :: YmU32
  posB :: YmU32
  posC :: YmU32
  volA :: YmInt
  volB :: YmInt
  volC :: YmInt
  volE :: YmInt
  mixerTA :: YmU32
  mixerTB :: YmU32
  mixerTC :: YmU32
  mixerNA :: YmU32
  mixerNB :: YmU32
  mixerNC :: YmU32
  pVolA :: vol_ptr
  pVolB :: vol_ptr
  pVolC :: vol_ptr
  noiseStep :: YmU32
  noisePos :: YmU32
  rndRack :: YmU32
  currentNoise :: YmU32
  envStep :: YmU32
  envPos :: YmU32
  envPhase :: YmInt
  envShape :: YmInt
  envData :: "nat \<Rightarrow> nat \<Rightarrow> nat \<Rightarrow> YmU8"
  specialEffect :: "nat \<Rightarrow> YmSpecialEffect"
  bSyncBuzzer :: bool
  syncBuzzerStep :: YmU32
  syncBuzzerPhase :: YmU32
  lowPassFilter :: "nat \<Rightarrow> int"
  dcAdjust :: DcAdjuster

definition deref_vol :: "CYm2149Ex \<Rightarrow> vol_ptr \<Rightarrow> YmInt" where
  "deref_vol ym p =
     (case p of AddrVolA \<Rightarrow> volA ym | AddrVolB \<Rightarrow> volB ym
              | AddrVolC \<Rightarrow> volC ym | AddrVolE \<Rightarrow> volE ym)"

subsection \<open>Step computation\<close>

definition toneStepCompute :: "CYm2149Ex \<Rightarrow> YmU8 \<Rightarrow> YmU8 \<Rightarrow> error + YmU32" where
  "toneStepCompute ym rHigh rLow =
     (let per0 = (ucast (rHigh AND 15) :: YmInt);
          per = push_bit 8 per0 + ucast rLow
      in if per \<le>s 5 then Inr 0
         else
           let step0 = (ucast (internalClock ym) :: YmS64);
               step1 = push_bit (15 + 16 - 3) step0;
               d = per * replayFrequency ym
           in if d = 0 then Inl PanicDivideByZero
              else Inr (ucast (s64_div step1 (scast d))))"

definition noiseStepCompute :: "CYm2149Ex \<Rightarrow> YmU8 \<Rightarrow> error + YmU32" where
  "noiseStepCompute ym rNoise =
     (let per = (ucast (rNoise AND 0x1f) :: YmInt)
      in if per <s 3 then Inr 0
         else
           let step0 = (ucast (internalClock ym) :: YmS64);
               step1 = push_bit (16 - 1 - 3) step0;
               d = per * replayFrequency ym
           in if d = 0 then Inl PanicDivideByZero
              else Inr (ucast (s64_div step1 (scast d))))"

definition rndCompute :: "CYm2149Ex \<Rightarrow> YmU32 \<times> CYm2149Ex" where
  "rndCompute ym =
     (let rBit = (rndRack ym AND 1) XOR (drop_bit 2 (rndRack ym) AND 1);
          ym' = ym\<lparr>rndRack := drop_bit 1 (rndRack ym) OR push_bit 16 rBit\<rparr>
      in (if rBit \<noteq> 0 then 0 else 0xffff, ym'))"

definition envStepCompute :: "CYm2149Ex \<Rightarrow> YmU8 \<Rightarrow> YmU8 \<Rightarrow> error + YmU32" where
  "envStepCompute ym rHigh rLow =
     (let per0 = (ucast rHigh :: YmInt);
          per = push_bit 8 per0 + ucast rLow
      in if per <s 3 then Inr 0
         else
           let step0 = (ucast (internalClock ym) :: YmS64);
               step1 = push_bit (16 + 16 - 9) step0;
               d = per * replayFrequency ym
           in if d = 0 then Inl PanicDivideByZero
              else Inr (ucast (s64_div step1 (scast d))))"

subsection \<open>Register writes\<close>

text \<open>\<open>vt\<close> is the package-level \<open>ymVolumeTable\<close> at the time of the call.\<close>

definition mixer_bit :: "YmInt \<Rightarrow> nat \<Rightarrow> YmU32" where
  "mixer_bit data n = (if data AND push_bit n 1 \<noteq> 0 then 0xffff else 0)"

definition WriteRegister :: "YmInt list \<Rightarrow> YmInt \<Rightarrow> YmInt \<Rightarrow> CYm2149Ex \<Rightarrow> error + CYm2149Ex" where
  "WriteRegister vt reg data ym =
    (if reg = 0 then
       (let ym1 = ym\<lparr>registers := (registers ym)(0 := ucast (data AND 255))\<rparr>
        in bindE (toneStepCompute ym1 (registers ym1 1) (registers ym1 0)) (\<lambda>s.
             let ym2 = ym1\<lparr>stepA := s\<rparr>
             in Inr (if stepA ym2 = 0 then ym2\<lparr>posA := push_bit 31 1\<rparr> else ym2)))
     else if reg = 1 then
       (let ym1 = ym\<lparr>registers := (registers ym)(1 := ucast (data AND 15))\<rparr>
        in bindE (toneStepCompute ym1 (registers ym1 1) (registers ym1 0)) (\<lambda>s.
             let ym2 = ym1\<lparr>stepA := s\<rparr>
             in Inr (if stepA ym2 = 0 then ym2\<lparr>posA := push_bit 31 1\<rparr> else ym2)))
     else if reg = 2 then
       (let ym1 = ym\<lparr>registers := (registers ym)(2 := ucast (data AND 255))\<rparr>
        in bindE (toneStepCompute ym1 (registers ym1 3) (registers ym1 2)) (\<lambda>s.
             let ym2 = ym1\<lparr>stepB := s\<rparr>
             in Inr (if stepB ym2 = 0 then ym2\<lparr>posB := push_bit 31 1\<rparr> else ym2)))
     else if reg = 3 then
       (let ym1 = ym\<lparr>registers := (registers ym)(3 := ucast (data AND 15))\<rparr>
        in bindE (toneStepCompute ym1 (registers ym1 3) (registers ym1 2)) (\<lambda>s.
             let ym2 = ym1\<lparr>stepB := s\<rparr>
             in Inr (if stepB ym2 = 0 then ym2\<lparr>posB := push_bit 31 1\<rparr> else ym2)))
     else if reg = 4 then
       (let ym1 = ym\<lparr>registers := (registers ym)(4 := ucast (data AND 255))\<rparr>
        in bindE (toneStepCompute ym1 (registers ym1 5) (registers ym1 4)) (\<lambda>s.
             let ym2 = ym1\<lparr>stepC := s\<rparr>
             in Inr (if stepC ym2 = 0 then ym2\<lparr>posC := push_bit 31 1\<rparr> else ym2)))
     else if reg = 5 then
       (let ym1 = ym\<lparr>registers := (registers ym)(5 := ucast (data AND 15))\<rparr>
        in bindE (toneStepCompute ym1 (registers ym1 5) (registers ym1 4)) (\<lambda>s.
             let ym2 = ym1\<lparr>stepC := s\<rparr>
             in Inr (if stepC ym2 = 0 then ym2\<lparr>posC := push_bit 31 1\<rparr> else ym2)))
     else if reg = 6 then
       (let ym1 = ym\<lparr>registers := (registers ym)(6 := ucast (data AND 0x1f))\<rparr>
        in bindE (noiseStepCompute ym1 (registers ym1 6)) (\<lambda>s.
             let ym2 = ym1\<lparr>noiseStep := s\<rparr>
             in Inr (if noiseStep ym2 = 0
                     then ym2\<lparr>noisePos := 0, currentNoise := 0xffff\<rparr> else ym2)))
     else if reg = 7 then
       Inr (ym\<lparr>registers := (registers ym)(7 := ucast (data AND 255)),
               mixerTA := mixer_bit data 0,
               mixerTB := mixer_bit data 1,
               mixerTC := mixer_bit data 2,
               mixerNA := mixer_bit data 3,
               mixerNB := mixer_bit data 4,
               mixerNC := mixer_bit data 5\<rparr>)
     else if reg = 8 then
       (if length vt \<le> unat (data AND 15) then Inl PanicIndexOutOfRange
        else Inr (ym\<lparr>registers := (registers ym)(8 := ucast (data AND 31)),
                     volA := vt ! unat (data AND 15),
                     pVolA := (if data AND 0x10 \<noteq> 0 then AddrVolE else AddrVolA)\<rparr>))
     else if reg = 9 then
       (if length vt \<le> unat (data AND 15) then Inl PanicIndexOutOfRange
        else Inr (ym\<lparr>registers := (registers ym)(9 := ucast (data AND 31)),
                     volB := vt ! unat (data AND 15),
                     pVolB := (if data AND 0x10 \<noteq> 0 then AddrVolE else AddrVolB)\<rparr>))
     else if reg = 10 then
       (if length vt \<le> unat (data AND 15) then Inl PanicIndexOutOfRange
        else Inr (ym\<lparr>registers := (registers ym)(10 := ucast (data AND 31)),
                     volC := vt ! unat (data AND 15),
                     pVolC := (if data AND 0x10 \<noteq> 0 then AddrVolE else AddrVolC)\<rparr>))
     else if reg = 11 then
       (let ym1 = ym\<lparr>registers := (registers ym)(11 := ucast (data AND 255))\<rparr>
        in bindE (envStepCompute ym1 (registers ym1 12) (registers ym1 11)) (\<lambda>s.
             Inr (ym1\<lparr>envStep := s\<rparr>)))
     else if reg = 12 then
       (let ym1 = ym\<lparr>registers := (registers ym)(12 := ucast (data AND 255))\<rparr>
        in bindE (envStepCompute ym1 (registers ym1 12) (registers ym1 11)) (\<lambda>s.
             Inr (ym1\<lparr>envStep := s\<rparr>)))
     else if reg = 13 then
       Inr (ym\<lparr>registers := (registers ym)(13 := ucast (data AND 0xf)),
               envPos := 0, envPhase := 0, envShape := data AND 0xf\<rparr>)
     else Inr ym)"

definition ReadRegister :: "CYm2149Ex \<Rightarrow> YmInt \<Rightarrow> YmInt" where
  "ReadRegister ym reg =
     (if 0 \<le>s reg \<and> reg \<le>s 13 then ucast (registers ym (nat (sint reg))) else - 1)"


subsection \<open>Envelope table\<close>

definition envWave :: "YmInt list list" where
  "envWave =
     (let env00xx = [1, 0, 0, 0, 0, 0, 0, 0];
          env01xx = [0, 1, 0, 0, 0, 0, 0, 0];
          env1000 = [1, 0, 1, 0, 1, 0, 1, 0];
          env1001 = [1, 0, 0, 0, 0, 0, 0, 0];
          env1010 = [1, 0, 0, 1, 1, 0, 0, 1];
          env1011 = [1, 0, 1, 1, 1, 1, 1, 1];
          env1100 = [0, 1, 0, 1, 0, 1, 0, 1];
          env1101 = [0, 1, 1, 1, 1, 1, 1, 1];
          env1110 = [0, 1, 1, 0, 0, 1, 1, 0];
          env1111 = [0, 1, 0, 0, 0, 0, 0, 0]
      in [env00xx, env00xx, env00xx, env00xx,
          env01xx, env01xx, env01xx, env01xx,
          env1000, env1001, env1010, env1011,
          env1100, env1101, env1110, env1111])"

text \<open>The innermost loop of \<open>initEnvelopeData\<close>, one step: the state is the running value
  \<open>a\<close>, the write cursor \<open>pEnv\<close> and the table.\<close>

definition env_step ::
  "nat \<Rightarrow> nat \<Rightarrow> YmInt \<Rightarrow> YmInt \<times> nat \<times> (nat \<Rightarrow> nat \<Rightarrow> nat \<Rightarrow> YmU8) \<Rightarrow> nat
     \<Rightarrow> YmInt \<times> nat \<times> (nat \<Rightarrow> nat \<Rightarrow> nat \<Rightarrow> YmU8)" where
  "env_step env phase d s i =
     (case s of (a, pEnv, tbl) \<Rightarrow>
        let val = (if a <s 0 then 0 else if 15 <s a then 15 else a)
        in if phase < 2
           then (a + d, pEnv + 1,
                 tbl(env := (tbl env)(phase := (tbl env phase)(pEnv := ucast val))))
           else (a + d, pEnv, tbl))"

definition env_phase ::
  "nat \<Rightarrow> nat \<times> (nat \<Rightarrow> nat \<Rightarrow> nat \<Rightarrow> YmU8) \<Rightarrow> nat \<Rightarrow> nat \<times> (nat \<Rightarrow> nat \<Rightarrow> nat \<Rightarrow> YmU8)" where
  "env_phase env s phase =
     (case s of (pEnv, tbl) \<Rightarrow>
        let pse = envWave ! env;
            a = pse ! (phase * 2);
            b = pse ! (phase * 2 + 1);
            d = b - a
        in case foldl (env_step env phase d) (a * 15, pEnv, tbl) [0..<16] of
             (a', pEnv', tbl') \<Rightarrow> (if phase = 1 then 0 else pEnv', tbl'))"

definition initEnvelopeData_table :: "(nat \<Rightarrow> nat \<Rightarrow> nat \<Rightarrow> YmU8) \<Rightarrow> nat \<Rightarrow> nat \<Rightarrow> nat \<Rightarrow> YmU8" where
  "initEnvelopeData_table tbl0 =
     foldl (\<lambda>tbl env. snd (foldl (env_phase env) (0, tbl) [0..<4])) tbl0 [0..<16]"

definition initEnvelopeData :: "CYm2149Ex \<Rightarrow> CYm2149Ex" where
  "initEnvelopeData ym = ym\<lparr>envData := initEnvelopeData_table (envData ym)\<rparr>"

definition SetClock :: "YmU32 \<Rightarrow> CYm2149Ex \<Rightarrow> CYm2149Ex" where
  "SetClock clock ym = ym\<lparr>internalClock := clock\<rparr>"

definition SetFilter :: "bool \<Rightarrow> CYm2149Ex \<Rightarrow> CYm2149Ex" where
  "SetFilter b ym = ym\<lparr>bFilter := b\<rparr>"

subsection \<open>Special effects\<close>

text \<open>Index into \<open>specialEffect [3]YmSpecialEffect\<close>.\<close>

definition voice_index :: "YmInt \<Rightarrow> error + nat" where
  "voice_index voice =
     (if 0 \<le>s voice \<and> voice <s 3 then Inr (nat (sint voice)) else Inl PanicIndexOutOfRange)"

definition DrumStart ::
  "YmInt \<Rightarrow> YmU8 list \<Rightarrow> YmU32 \<Rightarrow> YmInt \<Rightarrow> CYm2149Ex \<Rightarrow> error + CYm2149Ex" where
  "DrumStart voice pDrumBuffer drumSize drumFreq ym =
     (if 0 < length pDrumBuffer \<and> 0 < drumSize then
        bindE (voice_index voice) (\<lambda>v.
          if replayFrequency ym = 0 then Inl PanicDivideByZero
          else Inr (ym\<lparr>specialEffect := (specialEffect ym)(v :=
                 (specialEffect ym v)\<lparr>DrumData := pDrumBuffer, DrumPos := 0,
                    DrumSize := drumSize,
                    DrumStep := s32_div (push_bit DRUM_PREC drumFreq) (replayFrequency ym),
                    Drum := True\<rparr>)\<rparr>))
      else Inr ym)"

definition DrumStop :: "YmInt \<Rightarrow> CYm2149Ex \<Rightarrow> error + CYm2149Ex" where
  "DrumStop voice ym =
     bindE (voice_index voice) (\<lambda>v.
       Inr (ym\<lparr>specialEffect := (specialEffect ym)(v := (specialEffect ym v)\<lparr>Drum := False\<rparr>)\<rparr>))"

definition SidStart :: "YmInt \<Rightarrow> YmInt \<Rightarrow> YmInt \<Rightarrow> CYm2149Ex \<Rightarrow> error + CYm2149Ex" where
  "SidStart voice timerFreq vol ym =
     (if replayFrequency ym = 0 then Inl PanicDivideByZero
      else
        let tmp = (timerFreq * push_bit 31 1) div replayFrequency ym
        in bindE (voice_index voice) (\<lambda>v.
             Inr (ym\<lparr>specialEffect := (specialEffect ym)(v :=
                    (specialEffect ym v)\<lparr>SidStep := tmp, SidVol := vol AND 15, Sid := True\<rparr>)\<rparr>)))"

definition SidStop :: "YmInt \<Rightarrow> CYm2149Ex \<Rightarrow> error + CYm2149Ex" where
  "SidStop voice ym =
     bindE (voice_index voice) (\<lambda>v.
       Inr (ym\<lparr>specialEffect := (specialEffect ym)(v := (specialEffect ym v)\<lparr>Sid := False\<rparr>)\<rparr>))"

definition SyncBuzzerStart :: "YmInt \<Rightarrow> YmInt \<Rightarrow> CYm2149Ex \<Rightarrow> error + CYm2149Ex" where
  "SyncBuzzerStart timerFreq envShape' ym =
     (if replayFrequency ym = 0 then Inl PanicDivideByZero
      else
        let tmp = (timerFreq * push_bit 31 1) div replayFrequency ym
        in Inr (ym\<lparr>envShape := envShape' AND 15, syncBuzzerStep := tmp,
                   syncBuzzerPhase := 0, bSyncBuzzer := True\<rparr>))"

definition SyncBuzzerStop :: "CYm2149Ex \<Rightarrow> CYm2149Ex" where
  "SyncBuzzerStop ym = ym\<lparr>bSyncBuzzer := False, syncBuzzerPhase := 0, syncBuzzerStep := 0\<rparr>"

subsection \<open>Reset\<close>

definition DcAdjuster_Reset :: "DcAdjuster \<Rightarrow> DcAdjuster" where
  "DcAdjuster_Reset d = d\<lparr>dc_buffer := (\<lambda>i. 0), dc_pos := 0, dc_sum := 0\<rparr>"

definition Reset :: "YmInt list \<Rightarrow> CYm2149Ex \<Rightarrow> error + CYm2149Ex" where
  "Reset vt ym =
     bindE (foldl (\<lambda>r i. bindE r (WriteRegister vt (of_nat i) 0))
              (Inr (ym\<lparr>registers := (\<lambda>i. 0)\<rparr>)) [0..<14]) (\<lambda>ym1.
     bindE (WriteRegister vt 7 0xff ym1) (\<lambda>ym2.
     bindE (SidStop 0 (ym2\<lparr>currentNoise := 0xffff, rndRack := 1\<rparr>)) (\<lambda>ym3.
     bindE (SidStop 1 ym3) (\<lambda>ym4.
     bindE (SidStop 2 ym4) (\<lambda>ym5.
       Inr ((SyncBuzzerStop
              (ym5\<lparr>envShape := 0, envPhase := 0, envPos := 0,
                    dcAdjust := DcAdjuster_Reset (dcAdjust ym5),
                    specialEffect := (\<lambda>i. YmSpecialEffect_zero)\<rparr>))
            \<lparr>lowPassFilter := (lowPassFilter ym5)(0 := 0, 1 := 0)\<rparr>))))))"

subsection \<open>The sample loop\<close>

definition store_vol :: "vol_ptr \<Rightarrow> YmInt \<Rightarrow> CYm2149Ex \<Rightarrow> CYm2149Ex" where
  "store_vol p x ym =
     (case p of AddrVolA \<Rightarrow> ym\<lparr>volA := x\<rparr> | AddrVolB \<Rightarrow> ym\<lparr>volB := x\<rparr>
              | AddrVolC \<Rightarrow> ym\<lparr>volC := x\<rparr> | AddrVolE \<Rightarrow> ym\<lparr>volE := x\<rparr>)"

definition sidVolumeCompute ::
  "YmInt list \<Rightarrow> YmInt \<Rightarrow> vol_ptr \<Rightarrow> CYm2149Ex \<Rightarrow> error + CYm2149Ex" where
  "sidVolumeCompute vt voice pVol ym =
     bindE (voice_index voice) (\<lambda>v.
       let pVoice = specialEffect ym v
       in if Sid pVoice then
            (if SidPos pVoice AND push_bit 31 1 \<noteq> 0
             then WriteRegister vt (8 + voice) (SidVol pVoice) ym
             else WriteRegister vt (8 + voice) 0 ym)
          else if Drum pVoice then
            (let ix = unat (drop_bit DRUM_PREC (DrumPos pVoice))
             in if length (DrumData pVoice) \<le> ix then Inl PanicIndexOutOfRange
                else
                  let ym1 = store_vol pVol
                              (s32_div ((ucast (DrumData pVoice ! ix) :: YmInt) * 255) 6) ym;
                      ym2 = (if voice = 0 then
                               ym1\<lparr>pVolA := AddrVolA, mixerTA := 0xffff, mixerNA := 0xffff\<rparr>
                             else if voice = 1 then
                               ym1\<lparr>pVolB := AddrVolB, mixerTB := 0xffff, mixerNB := 0xffff\<rparr>
                             else if voice = 2 then
                               ym1\<lparr>pVolC := AddrVolC, mixerTC := 0xffff, mixerNC := 0xffff\<rparr>
                             else ym1);
                      pos' = DrumPos pVoice + DrumStep pVoice;
                      pVoice' = pVoice\<lparr>DrumPos := pos'\<rparr>;
                      pVoice'' = (if DrumSize pVoice' \<le> drop_bit DRUM_PREC pos'
                                  then pVoice'\<lparr>Drum := False\<rparr> else pVoice')
                  in Inr (ym2\<lparr>specialEffect := (specialEffect ym2)(v := pVoice'')\<rparr>))
          else Inr ym)"

definition LowPassFilter :: "int \<Rightarrow> CYm2149Ex \<Rightarrow> int \<times> CYm2149Ex" where
  "LowPassFilter inp ym =
     (let out = drop_bit 2 (lowPassFilter ym 0) + drop_bit 1 (lowPassFilter ym 1) + drop_bit 2 inp
      in (out, ym\<lparr>lowPassFilter := (lowPassFilter ym)(0 := lowPassFilter ym 1, 1 := inp)\<rparr>))"

definition DcAdjuster_AddSample :: "YmInt \<Rightarrow> DcAdjuster \<Rightarrow> error + DcAdjuster" where
  "DcAdjuster_AddSample sample d =
     (if 0 \<le> dc_pos d \<and> dc_pos d < DC_ADJUST_BUFFERLEN then
        Inr (d\<lparr>dc_sum := dc_sum d - dc_buffer d (nat (dc_pos d)) + sample,
               dc_buffer := (dc_buffer d)(nat (dc_pos d) := sample),
               dc_pos := (dc_pos d + 1) AND (DC_ADJUST_BUFFERLEN - 1)\<rparr>)
      else Inl PanicIndexOutOfRange)"

definition DcAdjuster_GetDcLevel :: "DcAdjuster \<Rightarrow> YmInt" where
  "DcAdjuster_GetDcLevel d = s32_div (dc_sum d) (word_of_int DC_ADJUST_BUFFERLEN)"

text \<open>\<open>nextSample\<close> in its three parts: the noise, envelope and effect updates; the three
  voice outputs (the locals \<open>volA\<close>, \<open>volB\<close>, \<open>volC\<close>, with \<open>bn\<close> the noise mask read
  before the effect updates); and the increments, DC removal and filter.\<close>

definition nextSample_noise :: "CYm2149Ex \<Rightarrow> CYm2149Ex" where
  "nextSample_noise ym =
     (if noisePos ym AND 0xffff0000 \<noteq> 0 then
        (case rndCompute ym of (r, ym1) \<Rightarrow>
           ym1\<lparr>currentNoise := currentNoise ym1 XOR r, noisePos := noisePos ym1 AND 0xffff\<rparr>)
      else ym)"

definition nextSample_env :: "YmInt list \<Rightarrow> CYm2149Ex \<Rightarrow> error + CYm2149Ex" where
  "nextSample_env vt ym =
     (if 0 \<le>s envShape ym \<and> envShape ym <s 16 \<and> 0 \<le>s envPhase ym \<and> envPhase ym <s 2 then
        (let ix = unat (envData ym (nat (sint (envShape ym))) (nat (sint (envPhase ym)))
                          (unat (drop_bit (32 - 5) (envPos ym))))
         in if length vt \<le> ix then Inl PanicIndexOutOfRange
            else Inr (ym\<lparr>volE := vt ! ix\<rparr>))
      else Inl PanicIndexOutOfRange)"

definition nextSample_effects :: "YmInt list \<Rightarrow> CYm2149Ex \<Rightarrow> error + CYm2149Ex" where
  "nextSample_effects vt ym =
     bindE (nextSample_env vt (nextSample_noise ym)) (\<lambda>ym1.
     bindE (sidVolumeCompute vt 0 AddrVolA ym1) (\<lambda>ym2.
     bindE (sidVolumeCompute vt 1 AddrVolB ym2) (\<lambda>ym3.
       sidVolumeCompute vt 2 AddrVolC ym3)))"

definition voiceA_out :: "YmU32 \<Rightarrow> CYm2149Ex \<Rightarrow> YmInt" where
  "voiceA_out bn ym =
     (let signA = signed_drop_bit 31 (posA ym);
          btA = (signA OR mixerTA ym) AND (bn OR mixerNA ym)
      in deref_vol ym (pVolA ym) AND btA)"

definition voiceB_out :: "YmU32 \<Rightarrow> CYm2149Ex \<Rightarrow> YmInt" where
  "voiceB_out bn ym =
     (let signB = signed_drop_bit 31 (posB ym);
          bt = (signB OR mixerTB ym) AND (bn OR mixerNB ym)
      in deref_vol ym (pVolB ym) AND bt)"

definition voiceC_out :: "YmU32 \<Rightarrow> CYm2149Ex \<Rightarrow> YmInt" where
  "voiceC_out bn ym =
     (let signC = signed_drop_bit 31 (posC ym);
          bt = (signC OR mixerTC ym) AND (bn OR mixerNC ym)
      in deref_vol ym (pVolC ym) AND bt)"

definition nextSample_advance :: "CYm2149Ex \<Rightarrow> CYm2149Ex" where
  "nextSample_advance ym =
     (let ym1 = ym\<lparr>posA := posA ym + stepA ym, posB := posB ym + stepB ym,
                   posC := posC ym + stepC ym, noisePos := noisePos ym + noiseStep ym,
                   envPos := envPos ym + envStep ym\<rparr>;
          ym2 = (if envPhase ym1 = 0 \<and> envPos ym1 < envStep ym1
                 then ym1\<lparr>envPhase := 1\<rparr> else ym1);
          ym3 = ym2\<lparr>syncBuzzerPhase := syncBuzzerPhase ym2 + syncBuzzerStep ym2\<rparr>;
          ym4 = (if syncBuzzerPhase ym3 AND push_bit 31 1 \<noteq> 0
                 then ym3\<lparr>envPos := 0, envPhase := 0,
                          syncBuzzerPhase := syncBuzzerPhase ym3 AND 0x7fffffff\<rparr>
                 else ym3);
          se = specialEffect ym4
      in ym4\<lparr>specialEffect := (\<lambda>i. if i < 3 then (se i)\<lparr>SidPos := SidPos (se i) + SidStep (se i)\<rparr>
                                     else se i)\<rparr>)"

definition nextSample :: "YmInt list \<Rightarrow> CYm2149Ex \<Rightarrow> error + (YmSample \<times> CYm2149Ex)" where
  "nextSample vt ym =
     bindE (nextSample_effects vt ym) (\<lambda>ym1.
       let bn = currentNoise (nextSample_noise ym);
           vol = voiceA_out bn ym1 + voiceB_out bn ym1 + voiceC_out bn ym1;
           ym2 = nextSample_advance ym1
       in bindE (DcAdjuster_AddSample vol (dcAdjust ym2)) (\<lambda>dc.
            let ym3 = ym2\<lparr>dcAdjust := dc\<rparr>;
                inp = vol - DcAdjuster_GetDcLevel dc
            in if bFilter ym3
               then (case LowPassFilter (sint inp) ym3 of (out, ym4) \<Rightarrow> Inr (word_of_int out, ym4))
               else Inr (ucast inp, ym3)))"

text \<open>\<open>CYm2149Ex.Update\<close>: \<open>k\<close> samples are still to be written, the next one at index \<open>i\<close>.\<close>

fun Update_samples ::
  "YmInt list \<Rightarrow> nat \<Rightarrow> nat \<Rightarrow> YmSample list \<Rightarrow> CYm2149Ex \<Rightarrow> error + (YmSample list \<times> CYm2149Ex)" where
  "Update_samples vt 0 i buf ym = Inr (buf, ym)"
| "Update_samples vt (Suc k) i buf ym =
     bindE (nextSample vt ym) (\<lambda>(s, ym').
       if length buf \<le> i then Inl PanicIndexOutOfRange
       else Update_samples vt k (Suc i) (buf[i := s]) ym')"

definition Ym2149Ex_Update ::
  "YmInt list \<Rightarrow> YmSample list \<Rightarrow> YmInt \<Rightarrow> CYm2149Ex \<Rightarrow> error + (YmSample list \<times> CYm2149Ex)" where
  "Ym2149Ex_Update vt pSampleBuffer nbSample ym =
     Update_samples vt (nat (sint nbSample)) 0 pSampleBuffer ym"

subsection \<open>Construction; the package-level volume table\<close>

record globals =
  ymVolumeTable :: "YmInt list"
  volumeTableInitialized :: bool

text \<open>The package variables as the program starts.\<close>

definition globals_init :: globals where
  "globals_init =
     \<lparr>ymVolumeTable = [62, 161, 265, 377, 580, 774, 1155, 1575,
                       2260, 3088, 4570, 6233, 9330, 13187, 21220, 32767],
      volumeTableInitialized = False\<rparr>"

definition CYm2149Ex_zero :: CYm2149Ex where
  "CYm2149Ex_zero =
     \<lparr>bFilter = False, frameCycle = 0, cyclePerSample = 0, replayFrequency = 0,
      internalClock = 0, registers = (\<lambda>i. 0),
      stepA = 0, stepB = 0, stepC = 0, posA = 0, posB = 0, posC = 0,
      volA = 0, volB = 0, volC = 0, volE = 0,
      mixerTA = 0, mixerTB = 0, mixerTC = 0, mixerNA = 0, mixerNB = 0, mixerNC = 0,
      pVolA = AddrVolA, pVolB = AddrVolB, pVolC = AddrVolC,
      noiseStep = 0, noisePos = 0, rndRack = 0, currentNoise = 0,
      envStep = 0, envPos = 0, envPhase = 0, envShape = 0,
      envData = (\<lambda>e p i. 0), specialEffect = (\<lambda>i. YmSpecialEffect_zero),
      bSyncBuzzer = False, syncBuzzerStep = 0, syncBuzzerPhase = 0,
      lowPassFilter = (\<lambda>i. 0),
      dcAdjust = \<lparr>dc_buffer = (\<lambda>i. 0), dc_pos = 0, dc_sum = 0\<rparr>\<rparr>"

definition NewYm2149Ex ::
  "globals \<Rightarrow> YmU32 \<Rightarrow> YmInt \<Rightarrow> YmU32 \<Rightarrow> error + (globals \<times> CYm2149Ex)" where
  "NewYm2149Ex g masterClock prediv playRate =
     (if prediv = 0 then Inl PanicDivideByZero
      else
        let ym = CYm2149Ex_zero\<lparr>bFilter := True, internalClock := masterClock div prediv,
                                replayFrequency := playRate\<rparr>
        in if \<not> volumeTableInitialized g \<and> length (ymVolumeTable g) \<le> 15
           then Inl PanicIndexOutOfRange
           else
             let g' = (if \<not> volumeTableInitialized g \<and> ymVolumeTable g ! 15 = 32767
                       then g\<lparr>volumeTableInitialized := True,
                              ymVolumeTable := map (\<lambda>v. s32_div (v * 2) 6) (ymVolumeTable g)\<rparr>
                       else g);
                 ym1 = initEnvelopeData ym;
                 ym2 = ym1\<lparr>pVolA := AddrVolA, pVolB := AddrVolB, pVolC := AddrVolC\<rparr>
             in bindE (Reset (ymVolumeTable g') ym2) (\<lambda>ym3. Inr (g', ym3)))"

section \<open>The music player (CYmMusic)\<close>

text \<open>\<open>YmFileType\<close> is a Go \<open>int\<close>; the constants are numbered by \<open>iota\<close> within one
  \<open>const\<close> block, so \<open>YM_TRACKER1 = 32 + 6\<close> and \<open>YM_MIX1 = 64 + 9\<close>.\<close>

definition YM_V2 :: int where "YM_V2 = 0"
definition YM_V3 :: int where "YM_V3 = 1"
definition YM_V4 :: int where "YM_V4 = 2"
definition YM_V5 :: int where "YM_V5 = 3"
definition YM_V6 :: int where "YM_V6 = 4"
definition YM_VMAX :: int where "YM_VMAX = 5"
definition YM_TRACKER1 :: int where "YM_TRACKER1 = 38"
definition YM_TRACKER2 :: int where "YM_TRACKER2 = 39"
definition YM_TRACKERMAX :: int where "YM_TRACKERMAX = 40"
definition YM_MIX1 :: int where "YM_MIX1 = 73"
definition YM_MIX2 :: int where "YM_MIX2 = 74"
definition YM_MIXMAX :: int where "YM_MIXMAX = 75"

definition A_STREAMINTERLEAVED :: YmInt where "A_STREAMINTERLEAVED = 1"
definition A_DRUMSIGNED :: YmInt where "A_DRUMSIGNED = 2"
definition A_DRUM4BITS :: YmInt where "A_DRUM4BITS = 4"
definition A_TIMECONTROL :: YmInt where "A_TIMECONTROL = 8"
definition A_LOOPMODE :: YmInt where "A_LOOPMODE = 16"

definition ATARI_CLOCK :: YmU32 where "ATARI_CLOCK = 2000000"
definition MFP_CLOCK :: YmInt where "MFP_CLOCK = 2457600"

definition mfpPrediv :: "YmInt list" where
  "mfpPrediv = [0, 4, 10, 16, 50, 64, 100, 200]"

record MixBlock =
  SampleStart :: YmU32
  SampleLength :: YmU32
  NbRepeat :: YmU16
  ReplayFreq :: YmU16

record DigiDrum =
  Size :: YmU32
  Data :: "YmU8 list"
  RepLen :: YmU32

record TimeKey =
  Time :: YmU32
  NRepeat :: YmU16
  NBlock :: YmU16

text \<open>The player. The fields of the tracker voices (\<open>nbVoice\<close>, \<open>ymTrackerVoice\<close>,
  \<open>ymTrackerNbSampleBefore\<close>, \<open>ymTrackerVolumeTable\<close>, \<open>ymTrackerFreqShift\<close>) are left out:
  the tracker mixer computes its step in \<open>float64\<close>.\<close>

record CYmMusic =
  ymChip :: CYm2149Ex
  lastError :: string
  songType :: int
  nbFrame :: int
  loopFrame :: int
  currentFrame :: int
  nbDrum :: int
  pDrumTab :: "DigiDrum list"
  musicTime :: int
  pBigMalloc :: "YmU8 list"
  pDataStream :: "YmU8 list"
  bLoop :: bool
  fileSize :: YmInt
  playerRate :: YmInt
  attrib :: YmInt
  bMusicOk :: bool
  bPause :: bool
  streamInc :: int
  innerSamplePos :: int
  replayRate :: int
  bMusicOver :: bool
  pSongName :: string
  pSongAuthor :: string
  pSongComment :: string
  pSongType :: string
  pSongPlayer :: string
  nbRepeat :: int
  nbMixBlock :: int
  pMixBlock :: "MixBlock list"
  mixPos :: int
  pBigSampleBuffer :: "YmU8 list"
  pCurrentMixSample :: "YmU8 list"
  currentSampleLength :: YmU32
  currentPente :: YmU32
  currentPos :: YmU32
  nbTimeKey :: int
  pTimeInfo :: "TimeKey list"
  musicLenInMs :: YmU32
  iMusicPosAccurateSample :: YmU32
  iMusicPosInMs :: YmU32

definition IsSeekable :: "CYmMusic \<Rightarrow> bool" where
  "IsSeekable ym = (attrib ym AND A_TIMECONTROL \<noteq> 0)"

definition GetPos :: "CYmMusic \<Rightarrow> YmU32" where
  "GetPos ym =
     (if YM_MIX1 \<le> songType ym \<and> songType ym < YM_MIXMAX then iMusicPosInMs ym
      else if 0 < nbFrame ym \<and> 0 <s playerRate ym
        then (word_of_int (currentFrame ym) * 1000) div playerRate ym
      else 0)"

definition GetMusicTime :: "CYmMusic \<Rightarrow> YmU32" where
  "GetMusicTime ym =
     (if YM_MIX1 \<le> songType ym \<and> songType ym < YM_MIXMAX then musicLenInMs ym
      else if 0 < nbFrame ym \<and> 0 <s playerRate ym
        then (word_of_int (nbFrame ym) * 1000) div playerRate ym
      else 0)"

text \<open>The loop of \<open>setMixTime\<close>: \<open>k\<close> keys are still to be looked at, the next one at
  index \<open>i\<close>; the \<open>break\<close> is the branch that does not recurse.\<close>

fun setMixTime_loop :: "YmU32 \<Rightarrow> nat \<Rightarrow> nat \<Rightarrow> CYmMusic \<Rightarrow> error + CYmMusic" where
  "setMixTime_loop time' 0 i ym = Inr ym"
| "setMixTime_loop time' (Suc k) i ym =
     (if int i < nbTimeKey ym - 1 \<and> length (pTimeInfo ym) \<le> i + 1 then Inl PanicIndexOutOfRange
      else
        let tEnd = (if int i < nbTimeKey ym - 1 then Time (pTimeInfo ym ! (i + 1))
                    else musicLenInMs ym)
        in if length (pTimeInfo ym) \<le> i then Inl PanicIndexOutOfRange
           else
             let key = pTimeInfo ym ! i
             in if Time key \<le> time' \<and> time' < tEnd then
                  (let mp = unat (NBlock key)
                   in if length (pMixBlock ym) \<le> mp then Inl PanicIndexOutOfRange
                      else
                        let blk = pMixBlock ym ! mp
                        in if length (pBigSampleBuffer ym) < unat (SampleStart blk)
                             then Inl PanicSliceBounds
                           else if (word_of_int (replayRate ym) :: YmU32) = 0
                             then Inl PanicDivideByZero
                           else
                             let len' = tEnd - Time key;
                                 t0 = ((time' - Time key) * SampleLength blk) div len'
                             in Inr (ym\<lparr>mixPos := int mp,
                                       pCurrentMixSample :=
                                         drop (unat (SampleStart blk)) (pBigSampleBuffer ym),
                                       currentSampleLength := push_bit 12 (SampleLength blk),
                                       currentPente :=
                                         push_bit 12 (ucast (ReplayFreq blk) :: YmU32)
                                           div word_of_int (replayRate ym),
                                       currentPos := push_bit 12 t0,
                                       nbRepeat := uint (NRepeat key)\<rparr>))
                else setMixTime_loop time' k (Suc i) ym)"

definition setMixTime :: "YmU32 \<Rightarrow> CYmMusic \<Rightarrow> error + CYmMusic" where
  "setMixTime time' ym =
     (if musicLenInMs ym < time' then Inr ym
      else bindE (setMixTime_loop time' (nat (nbTimeKey ym)) 0 ym) (\<lambda>ym1.
             Inr (ym1\<lparr>iMusicPosInMs := time', iMusicPosAccurateSample := 0\<rparr>)))"

text \<open>\<open>SetMusicTime\<close> returns \<open>newTime\<close> and the player. The conversion \<open>int(...)\<close> of the
  \<open>uint32\<close> quotient to \<open>int\<close> is \<open>uint\<close>.\<close>

definition SetMusicTime :: "YmU32 \<Rightarrow> CYmMusic \<Rightarrow> error + (YmU32 \<times> CYmMusic)" where
  "SetMusicTime time' ym =
     (if \<not> IsSeekable ym then Inr (0, ym)
      else if YM_V2 \<le> songType ym \<and> songType ym < YM_VMAX then
        (let newTime = (if GetMusicTime ym \<le> time' then 0 else time')
         in Inr (newTime, ym\<lparr>currentFrame := uint ((newTime * playerRate ym) div 1000)\<rparr>))
      else if YM_TRACKER1 \<le> songType ym \<and> songType ym < YM_TRACKERMAX then
        (let newTime = (if GetMusicTime ym \<le> time' then 0 else time')
         in Inr (newTime, ym\<lparr>currentFrame := uint ((newTime * playerRate ym) div 1000)\<rparr>))
      else if YM_MIX1 \<le> songType ym \<and> songType ym < YM_MIXMAX then
        bindE (setMixTime time' ym) (\<lambda>ym1. Inr (time', ym1))
      else Inr (time', ym))"

text \<open>\<open>ReadYmRegister\<close> takes a Go \<open>int\<close> and converts it to \<open>YmInt\<close> before the chip
  checks the range.\<close>

definition ReadYmRegister :: "CYmMusic \<Rightarrow> int \<Rightarrow> int" where
  "ReadYmRegister ym reg = sint (ReadRegister (ymChip ym) (word_of_int reg))"

text \<open>A player as \<open>NewYmMusic\<close> leaves every field it does not set.\<close>

definition CYmMusic_zero :: CYmMusic where
  "CYmMusic_zero =
     \<lparr>ymChip = CYm2149Ex_zero, lastError = [], songType = 0, nbFrame = 0, loopFrame = 0,
      currentFrame = 0, nbDrum = 0, pDrumTab = [], musicTime = 0, pBigMalloc = [],
      pDataStream = [], bLoop = False, fileSize = 0, playerRate = 0, attrib = 0,
      bMusicOk = False, bPause = False, streamInc = 0, innerSamplePos = 0, replayRate = 0,
      bMusicOver = False, pSongName = [], pSongAuthor = [], pSongComment = [],
      pSongType = [], pSongPlayer = [], nbRepeat = 0, nbMixBlock = 0, pMixBlock = [],
      mixPos = 0, pBigSampleBuffer = [], pCurrentMixSample = [], currentSampleLength = 0,
      currentPente = 0, currentPos = 0, nbTimeKey = 0, pTimeInfo = [], musicLenInMs = 0,
      iMusicPosAccurateSample = 0, iMusicPosInMs = 0\<rparr>"

section \<open>Concrete states\<close>

text \<open>A chip at the default replay rate of \<open>NewYmMusic\<close>, and a seekable YM5 song of 100
  frames standing at frame 1.\<close>

definition sid_chip :: CYm2149Ex where
  "sid_chip = CYm2149Ex_zero\<lparr>replayFrequency := 44100\<rparr>"

definition seek_player :: CYmMusic where
  "seek_player = CYmMusic_zero\<lparr>songType := YM_V5, nbFrame := 100, currentFrame := 1,
                                 playerRate := 60, attrib := A_TIMECONTROL\<rparr>"

definition reg_player :: CYmMusic where
  "reg_player = CYmMusic_zero\<lparr>ymChip := CYm2149Ex_zero\<lparr>registers := (\<lambda>i. 0)(0 := 0x55)\<rparr>\<rparr>"

section \<open>Word arithmetic\<close>

lemma uint_sint_pos: "0 \<le> sint (w :: 32 word) \<Longrightarrow> uint w = sint w"
  using sint_lt [of w] by (simp add: uint_sint take_bit_int_eq_self)

section \<open>SID and Sync-Buzzer steps\<close>

text \<open>
  C2. The claim is that \<open>SidStart\<close> and \<open>SyncBuzzerStart\<close> set the step to
  \<open>(f * 2^31) / r\<close> without losing bits before the division. The source multiplies in
  \<open>YmU32\<close>: for the timer frequency 48 (MFP predivisor 200, count 255, the slowest timer a
  YM5 or YM6 frame can ask for) at the replay rate 44100 the product \<open>48 * 2^31\<close> wraps to
  0, and both steps are 0, where the claim's value is 2337397.
\<close>

theorem SidStart_step_wraps:
  "SidStart 0 48 15 sid_chip =
     Inr (sid_chip\<lparr>specialEffect := (specialEffect sid_chip)(0 :=
            (specialEffect sid_chip 0)\<lparr>SidStep := 0, SidVol := 15, Sid := True\<rparr>)\<rparr>)
   \<and> SyncBuzzerStart 48 10 sid_chip =
     Inr (sid_chip\<lparr>envShape := 10, syncBuzzerStep := 0, syncBuzzerPhase := 0,
                    bSyncBuzzer := True\<rparr>)
   \<and> (48 * 2 ^ 31) div 44100 = (2337397 :: int)"
  by (simp add: SidStart_def SyncBuzzerStart_def Let_def voice_index_def bindE_def
      sid_chip_def CYm2149Ex_zero_def word_sle_eq word_sless_alt)

section \<open>Reading a register\<close>

text \<open>
  C10. The claim is that \<open>ReadYmRegister\<close> returns -1 for every index outside 0..13. The
  chip's \<open>ReadRegister\<close> checks the range, but \<open>ReadYmRegister\<close> narrows its \<open>int\<close> argument
  to \<open>YmInt\<close> first: the index \<open>2^32\<close> becomes 0 and the call returns register 0 (here
  0x55) instead of -1.
\<close>

theorem ReadYmRegister_narrows_index:
  "ReadYmRegister reg_player 4294967296 = 0x55"
  by (simp add: ReadYmRegister_def ReadRegister_def reg_player_def CYmMusic_zero_def
      CYm2149Ex_zero_def word_sle_eq)

section \<open>Seeking\<close>

text \<open>At the player rate 60 the position of frame 1 is 16 ms, and seeking to 16 ms
  computes frame \<open>16 * 60 / 1000 = 0\<close>: \<open>SetMusicTime (GetPos ())\<close> moves the song back
  from frame 1 to frame 0.\<close>

theorem SetMusicTime_GetPos_rate_60:
  "GetPos seek_player = 16 \<and> currentFrame seek_player = 1 \<and>
   SetMusicTime (GetPos seek_player) seek_player = Inr (16, seek_player\<lparr>currentFrame := 0\<rparr>)"
  by (simp add: seek_player_def GetPos_def SetMusicTime_def GetMusicTime_def IsSeekable_def
      Let_def CYmMusic_zero_def YM_V5_def YM_V2_def YM_VMAX_def YM_MIX1_def YM_MIXMAX_def
      A_TIMECONTROL_def word_sless_alt)

text \<open>
  C9, amended. For a seekable register-stream song whose player rate is positive and
  divides 1000, standing at a frame \<open>0 \<le> currentFrame < nbFrame\<close> with
  \<open>nbFrame * 1000 < 2^32\<close> (no wrap-around in \<open>GetPos\<close>), \<open>SetMusicTime (GetPos ())\<close> returns
  the position and leaves the whole player, \<open>currentFrame\<close> included, unchanged.
\<close>

theorem SetMusicTime_GetPos_roundtrip:
  assumes seek: "IsSeekable ym"
    and ty: "YM_V2 \<le> songType ym" "songType ym < YM_VMAX"
    and pr: "0 < sint (playerRate ym)" "sint (playerRate ym) dvd 1000"
    and cf: "0 \<le> currentFrame ym" "currentFrame ym < nbFrame ym"
    and nb: "nbFrame ym * 1000 < 2 ^ 32"
  shows "SetMusicTime (GetPos ym) ym = Inr (GetPos ym, ym)"
proof -
  let ?p = "sint (playerRate ym)"
  let ?c = "currentFrame ym"
  let ?n = "nbFrame ym"
  obtain m where m: "1000 = ?p * m" using pr(2) by (auto simp: dvd_def)
  have mpos: "0 < m"
  proof (rule ccontr)
    assume "\<not> 0 < m"
    then have "?p * m \<le> 0" using pr(1) by (simp add: mult_le_0_iff)
    then show False using m by simp
  qed
  have up: "uint (playerRate ym) = ?p" using pr(1) by (simp add: uint_sint_pos)
  have c1000: "0 \<le> ?c * 1000" "?c * 1000 < 2 ^ 32" using cf nb by auto
  have n1000: "0 \<le> ?n * 1000" using cf by auto
  have ucf: "uint (word_of_int ?c * 1000 :: 32 word) = ?c * 1000"
    using c1000 by (simp add: uint_word_ariths uint_word_of_int take_bit_eq_mod mod_simps)
  have unf: "uint (word_of_int ?n * 1000 :: 32 word) = ?n * 1000"
    using n1000 nb by (simp add: uint_word_ariths uint_word_of_int take_bit_eq_mod mod_simps)
  have cm: "?c * 1000 div ?p = ?c * m" using pr(1) by (simp add: m)
  have nm: "?n * 1000 div ?p = ?n * m" using pr(1) by (simp add: m)
  have notmix: "\<not> YM_MIX1 \<le> songType ym"
    using ty by (simp add: YM_MIX1_def YM_VMAX_def)
  have nbpos: "0 < ?n" using cf by simp
  have ps: "0 <s playerRate ym" using pr(1) by (simp add: word_sless_alt)
  have gp: "GetPos ym = (word_of_int ?c * 1000) div playerRate ym"
    using notmix nbpos ps by (simp add: GetPos_def)
  have gm: "GetMusicTime ym = (word_of_int ?n * 1000) div playerRate ym"
    using notmix nbpos ps by (simp add: GetMusicTime_def)
  have ugp: "uint (GetPos ym) = ?c * m" by (simp add: gp uint_div ucf up cm)
  have ugm: "uint (GetMusicTime ym) = ?n * m" by (simp add: gm uint_div unf up nm)
  have lt: "\<not> GetMusicTime ym \<le> GetPos ym"
    using cf(2) mpos by (simp add: word_le_def ugp ugm)
  have cmp: "?c * m * ?p = ?c * 1000" by (simp add: m mult.commute mult.left_commute)
  have "uint (GetPos ym * playerRate ym) = (?c * m * ?p) mod 2 ^ 32"
    by (simp add: uint_word_ariths ugp up)
  also have "\<dots> = ?c * 1000" unfolding cmp using c1000 by simp
  finally have "uint (GetPos ym * playerRate ym) = ?c * 1000" .
  then have fr: "uint ((GetPos ym * playerRate ym) div 1000) = ?c"
    by (simp add: uint_div)
  show ?thesis
    using seek ty lt by (simp add: SetMusicTime_def Let_def fr)
qed

text \<open>The same song at the player rate 50: frame 1 is at 20 ms, and seeking there changes
  nothing.\<close>

theorem SetMusicTime_GetPos_roundtrip_witness:
  "SetMusicTime (GetPos (seek_player\<lparr>playerRate := 50\<rparr>)) (seek_player\<lparr>playerRate := 50\<rparr>) =
     Inr (20, seek_player\<lparr>playerRate := 50\<rparr>)"
  using SetMusicTime_GetPos_roundtrip [of "seek_player\<lparr>playerRate := 50\<rparr>"]
  by (simp add: seek_player_def GetPos_def IsSeekable_def CYmMusic_zero_def YM_V5_def
      YM_V2_def YM_VMAX_def YM_MIX1_def YM_MIXMAX_def A_TIMECONTROL_def word_sless_alt)

end
